theory Spec2Isabelle
  imports Main "HOL-Library.Sublist"
begin

section \<open>Strings\<close>

text \<open>
  Python strings are modelled as \<^typ>\<open>string\<close>, with one \<^typ>\<open>char\<close> per character:
  the model covers ASCII text. Character classes and case conversion are given by
  explicit alphabets, so that they evaluate on literals.
\<close>

definition dquote :: char where
  "dquote = CHR 0x22"

definition digits :: string where
  "digits = ''0123456789''"

definition lowercase :: string where
  "lowercase = ''abcdefghijklmnopqrstuvwxyz''"

definition uppercase :: string where
  "uppercase = ''ABCDEFGHIJKLMNOPQRSTUVWXYZ''"

definition is_digit :: "char \<Rightarrow> bool" where
  "is_digit c = (c \<in> set digits)"

definition is_alpha :: "char \<Rightarrow> bool" where
  "is_alpha c = (c \<in> set lowercase \<or> c \<in> set uppercase)"

text \<open>The characters that \<open>str.strip()\<close> removes, within ASCII: space, tab, line feed,
  vertical tab, form feed, carriage return and the four separators 0x1c to 0x1f.\<close>

definition whitespace :: string where
  "whitespace = [CHR 0x20, CHR 0x09, CHR 0x0A, CHR 0x0B, CHR 0x0C, CHR 0x0D,
                 CHR 0x1C, CHR 0x1D, CHR 0x1E, CHR 0x1F]"

definition is_space :: "char \<Rightarrow> bool" where
  "is_space c = (c \<in> set whitespace)"

definition to_upper :: "char \<Rightarrow> char" where
  "to_upper c = (case map_of (zip lowercase uppercase) c of None \<Rightarrow> c | Some u \<Rightarrow> u)"

definition to_lower :: "char \<Rightarrow> char" where
  "to_lower c = (case map_of (zip uppercase lowercase) c of None \<Rightarrow> c | Some l \<Rightarrow> l)"

text \<open>\<open>str.isdigit()\<close>: at least one character, and every character a digit.\<close>

definition py_isdigit :: "string \<Rightarrow> bool" where
  "py_isdigit s = (s \<noteq> [] \<and> list_all is_digit s)"

text \<open>\<open>str.capitalize()\<close>: first character upper-cased, the others lower-cased.\<close>

definition py_capitalize :: "string \<Rightarrow> string" where
  "py_capitalize s = (case s of [] \<Rightarrow> [] | c # cs \<Rightarrow> to_upper c # map to_lower cs)"

text \<open>\<open>str.strip()\<close>: leading and trailing whitespace removed.\<close>

definition py_strip :: "string \<Rightarrow> string" where
  "py_strip s = rev (dropWhile is_space (rev (dropWhile is_space s)))"

text \<open>\<open>sep.join(xs)\<close>.\<close>

fun py_join :: "string \<Rightarrow> string list \<Rightarrow> string" where
  "py_join sep [] = []"
| "py_join sep [x] = x"
| "py_join sep (x # y # ys) = x @ sep @ py_join sep (y # ys)"

text \<open>\<open>str(n)\<close> for an integer: decimal digits, with a minus sign when negative.\<close>

fun str_nat :: "nat \<Rightarrow> string" where
  "str_nat n = (if n < 10 then [digits ! n] else str_nat (n div 10) @ [digits ! (n mod 10)])"

declare str_nat.simps [simp del]

definition str_int :: "int \<Rightarrow> string" where
  "str_int i = (if i < 0 then CHR ''-'' # str_nat (nat (- i)) else str_nat (nat i))"

text \<open>A dictionary with string keys is an association list; \<open>d.get(k, default)\<close> reads it.\<close>

type_synonym 'v dict = "(string \<times> 'v) list"

definition dict_get :: "'v dict \<Rightarrow> string \<Rightarrow> 'v \<Rightarrow> 'v" where
  "dict_get d k dflt = (case map_of d k of None \<Rightarrow> dflt | Some v \<Rightarrow> v)"


section \<open>Date normalizer\<close>

text \<open>
  The \<open>'pub_date'\<close> entry of a parsed paper is the empty string until a date is found,
  and a dictionary with string values afterwards.
\<close>

datatype pub_date_field = EmptyStr | DateDict "string dict"

definition month_names :: "string dict" where
  "month_names =
     [(''1'', ''Jan''), (''2'', ''Feb''), (''3'', ''Mar''), (''4'', ''Apr''),
      (''5'', ''May''), (''6'', ''Jun''), (''7'', ''Jul''), (''8'', ''Aug''),
      (''9'', ''Sep''), (''10'', ''Oct''), (''11'', ''Nov''), (''12'', ''Dec'')]"

definition date_not_available :: string where
  "date_not_available = ''Date not available''"

fun format_publication_date :: "pub_date_field \<Rightarrow> string" where
  "format_publication_date EmptyStr = date_not_available"
| "format_publication_date (DateDict pub_date) =
     (if pub_date = [] then date_not_available
      else
        let year = dict_get pub_date ''year'' '''';
            month = dict_get pub_date ''month'' '''';
            day = dict_get pub_date ''day'' ''''
        in
          if year = [] then date_not_available
          else
            let month = (if py_isdigit month then dict_get month_names month month
                         else if month \<noteq> [] then py_capitalize (take 3 month)
                         else month)
            in
              if month \<noteq> [] \<and> day \<noteq> [] then month @ '' '' @ day @ '' '' @ year
              else if month \<noteq> [] then month @ '' '' @ year
              else year)"

subsection \<open>The normalizer as the specification words it\<close>

text \<open>
  The raw components may each be absent (\<open>None\<close>) or empty. The abbreviation table is
  indexed by the month number; a month string is numeric when it consists of digits.
\<close>

definition spec_abbreviations :: "string list" where
  "spec_abbreviations =
     [''Jan'', ''Feb'', ''Mar'', ''Apr'', ''May'', ''Jun'',
      ''Jul'', ''Aug'', ''Sep'', ''Oct'', ''Nov'', ''Dec'']"

definition spec_present :: "string option \<Rightarrow> bool" where
  "spec_present x = (case x of None \<Rightarrow> False | Some s \<Rightarrow> s \<noteq> [])"

definition spec_text :: "string option \<Rightarrow> string" where
  "spec_text x = (case x of None \<Rightarrow> [] | Some s \<Rightarrow> s)"

definition spec_month :: "string \<Rightarrow> string" where
  "spec_month m =
     (case find (\<lambda>n. str_nat n = m) [1 ..< 13] of
        Some n \<Rightarrow> spec_abbreviations ! (n - 1)
      | None \<Rightarrow>
          if m \<noteq> [] \<and> list_all is_digit m then m
          else (case m of [] \<Rightarrow> []
                | c # cs \<Rightarrow> to_upper c # map to_lower (take 2 cs)))"

definition spec_normalize_date :: "string option \<Rightarrow> string option \<Rightarrow> string option \<Rightarrow> string" where
  "spec_normalize_date y m d =
     (if \<not> spec_present y then ''Date not available''
      else if spec_present m \<and> spec_present d
        then spec_month (spec_text m) @ '' '' @ spec_text d @ '' '' @ spec_text y
      else if spec_present m then spec_month (spec_text m) @ '' '' @ spec_text y
      else spec_text y)"


section \<open>Corresponding email selector\<close>

record author_info =
  a_name :: string
  a_affiliation :: string

text \<open>
  The dictionary the response parser builds for one record; field \<open>d_k\<close> is the entry
  with key \<open>'k'\<close>.
\<close>

record paper_data =
  d_pmid :: string
  d_title :: string
  d_authors :: "author_info list"
  d_pub_date :: pub_date_field
  d_emails :: "string list"

definition email_sentinel :: string where
  "email_sentinel = ''Email Unable to Retrieve''"

definition extract_corresponding_email :: "paper_data \<Rightarrow> string" where
  "extract_corresponding_email paper =
     (let emails = d_emails paper
      in if emails \<noteq> [] then emails ! 0 else email_sentinel)"


section \<open>Query builder\<close>

definition major_companies :: "string list" where
  "major_companies =
     [''pfizer'', ''moderna'', ''johnson johnson'', ''merck'', ''novartis'', ''roche'',
      ''bristol myers'', ''abbvie'', ''gilead'', ''amgen'', ''biogen'', ''regeneron'',
      ''eli lilly'', ''gsk'', ''glaxosmithkline'', ''astrazeneca'', ''sanofi'',
      ''takeda'', ''bayer'', ''boehringer ingelheim'', ''vertex'', ''celgene'']"

definition company_terms :: "string list" where
  "company_terms =
     [''pharmaceutical'', ''pharmaceuticals'', ''pharma'', ''biotech'', ''biotechnology'',
      ''therapeutics'', ''biopharmaceutical'', ''inc[ad]'', ''ltd[ad]'', ''corp[ad]'',
      ''corporation[ad]'', ''company[ad]'', ''laboratories[ad]'', ''lab[ad]'']"

definition quoted :: "string \<Rightarrow> string" where
  "quoted s = dquote # s @ [dquote]"

definition company_affiliation_parts :: "string list" where
  "company_affiliation_parts =
     map (\<lambda>company. quoted company @ ''[ad]'') major_companies
     @ map (\<lambda>term. term @ ''[ad]'') company_terms"

definition company_filter :: string where
  "company_filter = ''('' @ py_join '' OR '' company_affiliation_parts @ '')''"

definition academic_exclusions :: "string list" where
  "academic_exclusions =
     map (\<lambda>w. quoted w @ ''[ad]'')
       [''university'', ''college'', ''institute'', ''hospital'',
        ''medical center'', ''department'', ''school'']"

definition academic_filter :: string where
  "academic_filter = ''NOT ('' @ py_join '' OR '' academic_exclusions @ '')''"

definition build_company_filtered_query :: "string \<Rightarrow> string" where
  "build_company_filtered_query query =
     ''('' @ query @ '') AND '' @ company_filter @ '' '' @ academic_filter"


section \<open>Regular expressions\<close>

text \<open>
  The patterns of the response parser are built from literals, repetitions of a
  character class (greedy or lazy, with a lower and an optional upper bound), an
  optional part and capture groups. The matcher lists the ways a pattern matches at the
  start of a string, in the order in which a backtracking matcher tries them: a greedy
  repetition tries the longest run first, a lazy one the shortest, an optional part is
  tried before it is skipped. Each way is the captured groups and the rest of the input.
\<close>

datatype regex =
    Lit string
  | Greedy nat "nat option" "char \<Rightarrow> bool"
  | Lazy nat "nat option" "char \<Rightarrow> bool"
  | Seq regex regex
  | Opt regex
  | Group nat regex

text \<open>A group is recorded as the input at its start and the input at its end; its text
  is what lies between them.\<close>

type_synonym groups = "(nat \<times> string \<times> string) list"

text \<open>The rests of the input after a run of \<open>lo\<close> to \<open>hi\<close> characters of the class
  (no upper bound when \<open>hi\<close> is \<open>None\<close>), the shortest run first.\<close>

fun run_rests :: "nat \<Rightarrow> nat option \<Rightarrow> (char \<Rightarrow> bool) \<Rightarrow> string \<Rightarrow> string list" where
  "run_rests lo hi P [] = (if lo = 0 then [[]] else [])"
| "run_rests lo hi P (c # cs) =
     (let longer = (if P c \<and> hi \<noteq> Some 0
                    then run_rests (lo - 1) (map_option (\<lambda>h. h - 1) hi) P cs else [])
      in if lo = 0 then (c # cs) # longer else longer)"

fun rx_match :: "regex \<Rightarrow> groups \<Rightarrow> string \<Rightarrow> (groups \<times> string) list" where
  "rx_match (Lit l) gs s = (if prefix l s then [(gs, drop (length l) s)] else [])"
| "rx_match (Greedy lo hi P) gs s = map (\<lambda>rest. (gs, rest)) (rev (run_rests lo hi P s))"
| "rx_match (Lazy lo hi P) gs s = map (\<lambda>rest. (gs, rest)) (run_rests lo hi P s)"
| "rx_match (Seq r1 r2) gs s =
     concat (map (\<lambda>(gs1, rest). rx_match r2 gs1 rest) (rx_match r1 gs s))"
| "rx_match (Opt r) gs s = rx_match r gs s @ [(gs, s)]"
| "rx_match (Group i r) gs s =
     map (\<lambda>(gs1, rest). ((i, s, rest) # gs1, rest)) (rx_match r gs s)"

fun seqs :: "regex list \<Rightarrow> regex" where
  "seqs [] = Lit []"
| "seqs [r] = r"
| "seqs (r # rs) = Seq r (seqs rs)"

definition star :: "(char \<Rightarrow> bool) \<Rightarrow> regex" where
  "star P = Greedy 0 None P"

definition plus :: "(char \<Rightarrow> bool) \<Rightarrow> regex" where
  "plus P = Greedy 1 None P"

definition lazy_star :: "(char \<Rightarrow> bool) \<Rightarrow> regex" where
  "lazy_star P = Lazy 0 None P"

definition any_char :: "char \<Rightarrow> bool" where
  "any_char c = True"

definition not_char :: "char \<Rightarrow> char \<Rightarrow> bool" where
  "not_char x c = (c \<noteq> x)"

text \<open>\<open>m.group(i)\<close>, with the empty string for a group that took no part in the match
  (where the parser writes \<open>m.group(i) or ''\<close>, and what \<open>findall\<close> returns for it).\<close>

definition match_group :: "groups \<Rightarrow> nat \<Rightarrow> string" where
  "match_group gs i =
     (case map_of gs i of
        None \<Rightarrow> []
      | Some (start, fin) \<Rightarrow> take (length start - length fin) start)"

text \<open>
  \<open>re.search\<close>: the first way to match at the leftmost position where the pattern
  matches. The result is the text before the match, the groups and the text after it.
\<close>

fun re_search :: "regex \<Rightarrow> string \<Rightarrow> (string \<times> groups \<times> string) option" where
  "re_search r [] =
     (case rx_match r [] [] of [] \<Rightarrow> None | (gs, rest) # _ \<Rightarrow> Some ([], gs, rest))"
| "re_search r (c # cs) =
     (case rx_match r [] (c # cs) of
        (gs, rest) # _ \<Rightarrow> Some ([], gs, rest)
      | [] \<Rightarrow> (case re_search r cs of
                 None \<Rightarrow> None
               | Some (before, gs, rest) \<Rightarrow> Some (c # before, gs, rest)))"

text \<open>
  \<open>re.findall\<close> for a pattern with one group and \<open>re.split\<close> for a pattern without
  groups scan for the matches from left to right, each search starting where the match
  before it ended. Every pattern of the parser starts with a literal or a repetition of
  at least one character, so no match is empty; after an empty match the scan moves on
  by one character (\<open>re_matches\<close>) or stops (\<open>re_split\<close>).
\<close>

function re_matches :: "regex \<Rightarrow> string \<Rightarrow> groups list" where
  "re_matches r s =
     (case re_search r s of
        None \<Rightarrow> []
      | Some (before, gs, rest) \<Rightarrow>
          if length rest < length s then gs # re_matches r rest
          else (case s of [] \<Rightarrow> [gs] | c # cs \<Rightarrow> gs # re_matches r cs))"
  by pat_completeness auto
termination
  by (relation "measure (\<lambda>(r, s). length s)") auto

declare re_matches.simps [simp del]

definition re_findall :: "regex \<Rightarrow> string \<Rightarrow> string list" where
  "re_findall r s = map (\<lambda>gs. match_group gs 1) (re_matches r s)"

function re_split :: "regex \<Rightarrow> string \<Rightarrow> string list" where
  "re_split r s =
     (case re_search r s of
        None \<Rightarrow> [s]
      | Some (before, gs, rest) \<Rightarrow>
          if length rest < length s then before # re_split r rest else [s])"
  by pat_completeness auto
termination
  by (relation "measure (\<lambda>(r, s). length s)") auto

declare re_split.simps [simp del]


section \<open>Response parser\<close>

text \<open>The patterns, in the order in which the parser declares and uses them. The
  digit class is the ASCII digits, the dot is any character (every pattern with a dot
  is used with the flag that lets the dot match a line break), and a negated class
  \<open>[^x]\<close> is any character but \<open>x\<close>.\<close>

definition pmid_pattern :: regex where
  "pmid_pattern =
     seqs [Lit ''<PMID'', star (not_char CHR ''>''), Lit ''>'',
           Group 1 (plus is_digit), Lit ''</PMID>'']"

definition title_pattern :: regex where
  "title_pattern =
     seqs [Lit ''<ArticleTitle>'', Group 1 (plus (not_char CHR ''<'')), Lit ''</ArticleTitle>'']"

definition date_pattern :: regex where
  "date_pattern =
     seqs [Lit ''<PubDate>'', lazy_star any_char,
           Lit ''<Year>'', Group 1 (Greedy 4 (Some 4) is_digit), Lit ''</Year>'',
           Opt (seqs [lazy_star any_char, Lit ''<Month>'',
                      Group 2 (star (not_char CHR ''<'')), Lit ''</Month>'']),
           Opt (seqs [lazy_star any_char, Lit ''<Day>'', Group 3 (plus is_digit), Lit ''</Day>'']),
           lazy_star any_char, Lit ''</PubDate>'']"

definition email_local_char :: "char \<Rightarrow> bool" where
  "email_local_char c = (is_alpha c \<or> is_digit c \<or> c \<in> set ''._%+-'')"

definition email_domain_char :: "char \<Rightarrow> bool" where
  "email_domain_char c = (is_alpha c \<or> is_digit c \<or> c \<in> set ''.-'')"

definition email_pattern :: regex where
  "email_pattern =
     Group 1 (seqs [plus email_local_char, Lit ''@'', plus email_domain_char, Lit ''.'',
                    Greedy 2 None is_alpha])"

definition article_pattern :: regex where
  "article_pattern = seqs [Lit ''<PubmedArticle'', star (not_char CHR ''>''), Lit ''>'']"

text \<open>What this pattern of the code matches, said without the matcher: the text
  \<open><PubmedArticle\<close>, any characters other than \<open>>\<close>, and \<open>>\<close>. The tag name is not
  closed off, so every tag whose name begins with \<open>PubmedArticle\<close> is a match.\<close>

definition article_pattern_matches_at :: "string \<Rightarrow> bool" where
  "article_pattern_matches_at s =
     (\<exists>attrs rest. s = ''<PubmedArticle'' @ attrs @ ''>'' @ rest \<and> CHR ''>'' \<notin> set attrs)"

definition article_pattern_matches_in :: "string \<Rightarrow> bool" where
  "article_pattern_matches_in s = (\<exists>before rest. s = before @ rest \<and> article_pattern_matches_at rest)"

definition author_section_pattern :: regex where
  "author_section_pattern =
     seqs [Lit ''<Author'', star (not_char CHR ''>''), Lit ''>'',
           Group 1 (lazy_star any_char), Lit ''</Author>'']"

definition last_name_pattern :: regex where
  "last_name_pattern =
     seqs [Lit ''<LastName>'', Group 1 (plus (not_char CHR ''<'')), Lit ''</LastName>'']"

definition first_name_pattern :: regex where
  "first_name_pattern =
     seqs [Lit ''<ForeName>'', Group 1 (star (not_char CHR ''<'')), Lit ''</ForeName>'']"

definition affiliation_pattern :: regex where
  "affiliation_pattern =
     seqs [Lit ''<AffiliationInfo>'', lazy_star any_char, Lit ''<Affiliation>'',
           Group 1 (star (not_char CHR ''<'')), Lit ''</Affiliation>'']"

text \<open>The body of the loop over the author sections: the entry it appends, if any.\<close>

definition author_of_section :: "string \<Rightarrow> author_info option" where
  "author_of_section author_section =
     (let last_name_match = re_search last_name_pattern author_section;
          first_name_match = re_search first_name_pattern author_section
      in case (last_name_match, first_name_match) of
           (Some (_, lgs, _), Some (_, fgs, _)) \<Rightarrow>
             let last_name = match_group lgs 1;
                 first_name = match_group fgs 1;
                 affiliation_match = re_search affiliation_pattern author_section;
                 affiliation = (case affiliation_match of
                                  Some (_, ags, _) \<Rightarrow> py_strip (match_group ags 1)
                                | None \<Rightarrow> [])
             in Some \<lparr>a_name = py_strip (first_name @ '' '' @ last_name),
                      a_affiliation = affiliation\<rparr>
         | _ \<Rightarrow> None)"

fun collect_authors :: "string list \<Rightarrow> author_info list \<Rightarrow> author_info list" where
  "collect_authors [] authors = authors"
| "collect_authors (author_section # individual_authors) authors =
     (case author_of_section author_section of
        Some author_info \<Rightarrow> collect_authors individual_authors (authors @ [author_info])
      | None \<Rightarrow> collect_authors individual_authors authors)"

text \<open>The body of the loop over the record segments, after the check of the index.\<close>

definition parse_article :: "string list \<Rightarrow> string list \<Rightarrow> nat \<Rightarrow> string \<Rightarrow> paper_data" where
  "parse_article pmids titles i article =
     (let paper = \<lparr>d_pmid = (if i < length pmids then pmids ! i else []),
                   d_title = (if i < length titles then titles ! i else []),
                   d_authors = [],
                   d_pub_date = EmptyStr,
                   d_emails = []\<rparr>;
          individual_authors = re_findall author_section_pattern article;
          paper = paper\<lparr>d_authors := collect_authors individual_authors (d_authors paper)\<rparr>;
          date_match = re_search date_pattern article;
          paper = (case date_match of
                     Some (_, gs, _) \<Rightarrow>
                       paper\<lparr>d_pub_date :=
                         DateDict [(''year'', match_group gs 1), (''month'', match_group gs 2),
                                   (''day'', match_group gs 3)]\<rparr>
                   | None \<Rightarrow> paper);
          emails = re_findall email_pattern article
      in paper\<lparr>d_emails := emails\<rparr>)"

fun parse_articles ::
  "string list \<Rightarrow> string list \<Rightarrow> nat \<Rightarrow> string list \<Rightarrow> paper_data list \<Rightarrow> paper_data list" where
  "parse_articles pmids titles i [] papers = papers"
| "parse_articles pmids titles i (article # articles) papers =
     (if i \<ge> length pmids then papers
      else parse_articles pmids titles (Suc i) articles
             (papers @ [parse_article pmids titles i article]))"

definition parse_xml_response :: "string \<Rightarrow> paper_data list" where
  "parse_xml_response xml_content =
     (let pmids = re_findall pmid_pattern xml_content;
          titles = re_findall title_pattern xml_content;
          articles = re_split article_pattern xml_content
      in parse_articles pmids titles 0 (drop 1 articles) [])"

subsection \<open>The split as the specification words it\<close>

text \<open>
  The specification has the document split on record-start markers, the tag that starts
  the data of one article: the opening tag of a \<open>PubmedArticle\<close> element, that is the tag
  name followed by \<open>>\<close>, or by whitespace, attributes and \<open>>\<close>. The record segments
  are the pieces after the first, and the records are built from them by the loop of the
  parser.
\<close>

definition record_start_marker :: regex where
  "record_start_marker =
     seqs [Lit ''<PubmedArticle'',
           Opt (seqs [Greedy 1 (Some 1) is_space, star (not_char CHR ''>'')]),
           Lit ''>'']"

definition spec_record_segments :: "string \<Rightarrow> string list" where
  "spec_record_segments xml_content = drop 1 (re_split record_start_marker xml_content)"

definition spec_parse_xml_response :: "string \<Rightarrow> paper_data list" where
  "spec_parse_xml_response xml_content =
     parse_articles (re_findall pmid_pattern xml_content) (re_findall title_pattern xml_content)
       0 (spec_record_segments xml_content) []"


section \<open>Remote query execution\<close>

text \<open>
  An exception is a value. \<open>RequestException\<close> stands for the exception class of the
  HTTP library and its subclasses (connection errors, timeouts, HTTP errors),
  \<open>PubMedAPIError\<close> for the error class of this program, and \<open>OtherException\<close> for
  any other subclass of \<open>Exception\<close>. \<open>Interrupt\<close> stands for the exceptions that are
  not subclasses of \<open>Exception\<close>: \<open>KeyboardInterrupt\<close>, which the interpreter raises
  inside a delay or a request when the user interrupts the program, and \<open>SystemExit\<close>.
  Each carries its message, \<open>str(e)\<close>; for the errors that the interpreter or the HTTP
  library raises the message is a short name.
\<close>

datatype exn =
    RequestException string
  | PubMedAPIError string
  | OtherException string
  | Interrupt string

fun exn_str :: "exn \<Rightarrow> string" where
  "exn_str (RequestException m) = m"
| "exn_str (PubMedAPIError m) = m"
| "exn_str (OtherException m) = m"
| "exn_str (Interrupt m) = m"

text \<open>\<open>isinstance(e, Exception)\<close>: what a handler \<open>except Exception\<close> catches.\<close>

fun is_exception :: "exn \<Rightarrow> bool" where
  "is_exception (Interrupt m) = False"
| "is_exception _ = True"

text \<open>The decoded body of a search response: any JSON value. An object is an
  association list with distinct keys.\<close>

datatype json =
    JNull
  | JBool bool
  | JNum int
  | JStr string
  | JArr "json list"
  | JObj "(string \<times> json) list"

text \<open>A response of the service: its status, its text, and what \<open>response.json()\<close>
  gives, a decoded value or the exception of the decoder.\<close>

record response =
  resp_status :: nat
  resp_text :: string
  resp_json :: "exn + json"

text \<open>
  The effects are the delay and the outbound request. A run threads the list of the
  events so far; the network is a function that answers a request, given the events up
  to and including it, with a response or with the exception \<open>session.get\<close> raises.
\<close>

datatype event = Sleep | Get string "string dict"

type_synonym network = "event list \<Rightarrow> exn + response"

definition BASE_URL :: string where
  "BASE_URL = ''https://eutils.ncbi.nlm.nih.gov/entrez/eutils''"

definition SEARCH_URL :: string where
  "SEARCH_URL = BASE_URL @ ''/esearch.fcgi''"

definition FETCH_URL :: string where
  "FETCH_URL = BASE_URL @ ''/efetch.fcgi''"

text \<open>\<open>response.raise_for_status()\<close> raises an HTTP error, a \<open>RequestException\<close>, for a
  status from 400 to 599.\<close>

definition raise_for_status :: "response \<Rightarrow> exn + unit" where
  "raise_for_status response =
     (if 400 \<le> resp_status response \<and> resp_status response < 600
      then Inl (RequestException (''HTTPError '' @ str_nat (resp_status response)))
      else Inr ())"

definition make_request ::
  "network \<Rightarrow> string \<Rightarrow> string dict \<Rightarrow> event list \<Rightarrow> (exn + response) \<times> event list" where
  "make_request net url params tr =
     (let tr = tr @ [Sleep];
          tr = tr @ [Get url params]
      in case net tr of
           Inl e \<Rightarrow> (Inl e, tr)
         | Inr response \<Rightarrow>
             (case raise_for_status response of
                Inl e \<Rightarrow> (Inl e, tr)
              | Inr _ \<Rightarrow> (Inr response, tr)))"

definition fetch_params :: "string list \<Rightarrow> string dict" where
  "fetch_params pmids =
     [(''db'', ''pubmed''), (''id'', py_join '','' pmids), (''retmode'', ''xml''),
      (''tool'', ''gpl''), (''email'', ''your.email@example.com'')]"

definition fetch_paper_details ::
  "network \<Rightarrow> string list \<Rightarrow> event list \<Rightarrow> (exn + paper_data list) \<times> event list" where
  "fetch_paper_details net pmids tr =
     (if pmids = [] then (Inr [], tr)
      else
        case make_request net FETCH_URL (fetch_params pmids) tr of
          (Inl (RequestException m), tr) \<Rightarrow>
            (Inl (PubMedAPIError (''Failed to fetch paper details: '' @ m)), tr)
        | (Inl e, tr) \<Rightarrow> (Inl e, tr)
        | (Inr response, tr) \<Rightarrow> (Inr (parse_xml_response (resp_text response)), tr))"

subsection \<open>Operations on the decoded search response\<close>

text \<open>
  The search reads the decoded body with \<open>in\<close>, a subscript, \<open>.get\<close>, \<open>len\<close> and, in
  the detail fetch, \<open>','.join\<close>; on a value of the wrong type each raises.
\<close>

definition TypeError :: exn where
  "TypeError = OtherException ''TypeError''"

definition AttributeError :: exn where
  "AttributeError = OtherException ''AttributeError''"

definition KeyError :: exn where
  "KeyError = OtherException ''KeyError''"

fun json_contains :: "string \<Rightarrow> json \<Rightarrow> exn + bool" where
  "json_contains k (JObj kvs) = Inr (k \<in> set (map fst kvs))"
| "json_contains k (JArr xs) = Inr (JStr k \<in> set xs)"
| "json_contains k (JStr s) = Inr (sublist k s)"
| "json_contains k _ = Inl TypeError"

fun json_subscript :: "json \<Rightarrow> string \<Rightarrow> exn + json" where
  "json_subscript (JObj kvs) k = (case map_of kvs k of None \<Rightarrow> Inl KeyError | Some v \<Rightarrow> Inr v)"
| "json_subscript _ k = Inl TypeError"

fun json_get :: "json \<Rightarrow> string \<Rightarrow> json \<Rightarrow> exn + json" where
  "json_get (JObj kvs) k dflt = Inr (dict_get kvs k dflt)"
| "json_get _ k dflt = Inl AttributeError"

fun json_len :: "json \<Rightarrow> exn + nat" where
  "json_len (JArr xs) = Inr (length xs)"
| "json_len (JStr s) = Inr (length s)"
| "json_len (JObj kvs) = Inr (length kvs)"
| "json_len _ = Inl TypeError"

fun json_str :: "json \<Rightarrow> string option" where
  "json_str (JStr s) = Some s"
| "json_str _ = None"

text \<open>The strings that \<open>','.join(pmids)\<close> joins: the elements of a list, which must
  all be strings, the characters of a string, or the keys of an object.\<close>

fun json_strings :: "json \<Rightarrow> exn + string list" where
  "json_strings (JArr xs) =
     (if list_all (\<lambda>x. json_str x \<noteq> None) xs then Inr (map (\<lambda>x. the (json_str x)) xs)
      else Inl TypeError)"
| "json_strings (JStr s) = Inr (map (\<lambda>c. [c]) s)"
| "json_strings (JObj kvs) = Inr (map fst kvs)"
| "json_strings _ = Inl TypeError"

subsection \<open>Search\<close>

record PubMedPaper =
  pubmed_id :: string
  title :: string
  publication_date :: string
  non_academic_authors :: "string list"
  company_affiliations :: "string list"
  corresponding_email :: string

text \<open>
  The body of the loop over the fetched records. The affiliations go through a set;
  the model lists them without duplicates in the order of their first occurrence, the
  source leaves the order open.
\<close>

definition paper_of_data :: "paper_data \<Rightarrow> PubMedPaper" where
  "paper_of_data paper_data =
     (let pub_date = format_publication_date (d_pub_date paper_data);
          email = extract_corresponding_email paper_data;
          author_names = map a_name (filter (\<lambda>author. a_name author \<noteq> []) (d_authors paper_data));
          affiliations = remdups (map a_affiliation
                            (filter (\<lambda>author. a_affiliation author \<noteq> []) (d_authors paper_data)))
      in \<lparr>pubmed_id = d_pmid paper_data,
          title = d_title paper_data,
          publication_date = pub_date,
          non_academic_authors = author_names,
          company_affiliations = affiliations,
          corresponding_email = email\<rparr>)"

fun collect_papers :: "paper_data list \<Rightarrow> PubMedPaper list \<Rightarrow> PubMedPaper list" where
  "collect_papers [] papers = papers"
| "collect_papers (paper_data # paper_details) papers =
     collect_papers paper_details (papers @ [paper_of_data paper_data])"

definition search_params :: "string \<Rightarrow> int \<Rightarrow> string dict" where
  "search_params enhanced_query max_results =
     [(''db'', ''pubmed''), (''term'', enhanced_query), (''retmax'', str_int max_results),
      (''retmode'', ''json''), (''sort'', ''relevance''), (''tool'', ''gpl''),
      (''email'', ''your.email@example.com'')]"

text \<open>What the search does with the decoded body, up to the call of the detail fetch:
  the identifiers to fetch, or an exception.\<close>

definition search_pmids :: "json \<Rightarrow> exn + json" where
  "search_pmids data =
     (case json_contains ''esearchresult'' data of
        Inl e \<Rightarrow> Inl e
      | Inr False \<Rightarrow> Inl (PubMedAPIError ''Invalid response format from PubMed search'')
      | Inr True \<Rightarrow>
          (case json_subscript data ''esearchresult'' of
             Inl e \<Rightarrow> Inl e
           | Inr esearchresult \<Rightarrow> json_get esearchresult ''idlist'' (JArr [])))"

text \<open>The body of the \<open>try\<close> statement of the search.\<close>

definition search_body ::
  "network \<Rightarrow> string dict \<Rightarrow> event list \<Rightarrow> (exn + PubMedPaper list) \<times> event list" where
  "search_body net params tr =
     (case make_request net SEARCH_URL params tr of
        (Inl e, tr) \<Rightarrow> (Inl e, tr)
      | (Inr response, tr) \<Rightarrow>
          (case resp_json response of
             Inl e \<Rightarrow> (Inl e, tr)
           | Inr data \<Rightarrow>
               (case search_pmids data of
                  Inl e \<Rightarrow> (Inl e, tr)
                | Inr pmids \<Rightarrow>
                    (case json_len pmids of
                       Inl e \<Rightarrow> (Inl e, tr)
                     | Inr n \<Rightarrow>
                         if n = 0 then (Inr [], tr)
                         else
                           (case json_strings pmids of
                              Inl e \<Rightarrow> (Inl e, tr)
                            | Inr ids \<Rightarrow>
                                (case fetch_paper_details net ids tr of
                                   (Inl e, tr) \<Rightarrow> (Inl e, tr)
                                 | (Inr paper_details, tr) \<Rightarrow>
                                     (Inr (collect_papers paper_details []), tr)))))))"

definition search_papers ::
  "network \<Rightarrow> string \<Rightarrow> int \<Rightarrow> bool \<Rightarrow> event list \<Rightarrow> (exn + PubMedPaper list) \<times> event list" where
  "search_papers net query max_results filter_companies tr =
     (let enhanced_query =
            (if filter_companies then build_company_filtered_query query else query);
          params = search_params enhanced_query max_results
      in case search_body net params tr of
           (Inl (RequestException m), tr) \<Rightarrow>
             (Inl (PubMedAPIError (''Failed to search PubMed: '' @ m)), tr)
         | (Inl e, tr) \<Rightarrow>
             if is_exception e
             then (Inl (PubMedAPIError
                          (''Unexpected error during PubMed search: '' @ exn_str e)), tr)
             else (Inl e, tr)
         | (Inr papers, tr) \<Rightarrow> (Inr papers, tr))"



section \<open>Classifying results and events\<close>

fun is_api_error :: "exn + 'a \<Rightarrow> bool" where
  "is_api_error (Inl (PubMedAPIError m)) = True"
| "is_api_error _ = False"

definition is_search_request :: "event \<Rightarrow> bool" where
  "is_search_request e = (case e of Sleep \<Rightarrow> False | Get url params \<Rightarrow> url = SEARCH_URL)"


section \<open>Example inputs\<close>

text \<open>A document with text before the first marker, two markers, one identifier and
  one title.\<close>

definition example_document :: string where
  "example_document =
     ''x<PubmedArticle><PMID>1</PMID><ArticleTitle>T</ArticleTitle>a@b.cd<PubmedArticle>z''"

text \<open>Documents as the service sends them, with the records inside a
  \<open>PubmedArticleSet\<close> element: two articles with one identifier and one email each; one
  article with two identifier tags; and a book record, which is not an article.\<close>

definition example_set_document :: string where
  "example_set_document =
     ''<PubmedArticleSet><PubmedArticle><PMID>1</PMID>a@b.cd</PubmedArticle><PubmedArticle><PMID>2</PMID>e@f.gh</PubmedArticle></PubmedArticleSet>''"

definition example_one_article :: string where
  "example_one_article =
     ''<PubmedArticleSet><PubmedArticle><PMID>1</PMID><PMID>9</PMID></PubmedArticle></PubmedArticleSet>''"

definition example_book_document :: string where
  "example_book_document =
     ''<PubmedArticleSet><PubmedBookArticle><PMID>7</PMID></PubmedBookArticle></PubmedArticleSet>''"

text \<open>Author sections: a complete one, one without a first name, one without an
  affiliation; and a record segment that holds the last two.\<close>

definition example_section_full :: string where
  "example_section_full =
     ''<LastName>Doe</LastName><ForeName>John</ForeName><AffiliationInfo><Affiliation> Pfizer Inc. </Affiliation></AffiliationInfo>''"

definition example_section_no_first_name :: string where
  "example_section_no_first_name = ''<LastName>Roe</LastName>''"

definition example_section_no_affiliation :: string where
  "example_section_no_affiliation = ''<LastName>Poe</LastName><ForeName>Ann</ForeName>''"

definition example_article :: string where
  "example_article =
     ''<Author>'' @ example_section_no_first_name @ ''</Author>'' @
     ''<Author>'' @ example_section_no_affiliation @ ''</Author>''"


text \<open>Networks that fail every request, with a request exception, with an interrupt
  or with another exception, and a network that answers every request with the same response; a response
  with an error status and a response whose body lacks the search result.\<close>

definition network_timeout :: network where
  "network_timeout tr = Inl (RequestException ''timeout'')"

definition network_interrupted :: network where
  "network_interrupted tr = Inl (Interrupt ''KeyboardInterrupt'')"

definition network_raising :: network where
  "network_raising tr = Inl (OtherException ''API Error'')"

definition network_answering :: "response \<Rightarrow> network" where
  "network_answering response tr = Inr response"

definition example_response_error_status :: response where
  "example_response_error_status =
     \<lparr>resp_status = 500, resp_text = [], resp_json = Inr JNull\<rparr>"

definition example_response_no_field :: response where
  "example_response_no_field =
     \<lparr>resp_status = 200, resp_text = ''{}'', resp_json = Inr (JObj [])\<rparr>"


section \<open>Properties of the string operations\<close>

text \<open>Stripping gives a part of the string that neither starts nor ends with
  whitespace.\<close>

lemma dropWhile_rev_hd:
  assumes "t \<noteq> []" "\<not> P (hd t)"
  shows "rev (dropWhile P (rev t)) \<noteq> [] \<and> hd (rev (dropWhile P (rev t))) = hd t"
proof -
  from assms obtain c cs where t: "t = c # cs" and c: "\<not> P c"
    by (cases t) auto
  have "dropWhile P (rev cs @ [c]) = dropWhile P (rev cs) @ [c]"
    using c by (simp add: dropWhile_append3)
  then show ?thesis
    unfolding t by simp
qed

lemma py_strip_trimmed:
  "py_strip s = [] \<or> (\<not> is_space (hd (py_strip s)) \<and> \<not> is_space (last (py_strip s)))"
proof (cases "dropWhile is_space s = []")
  case True
  then have "py_strip s = []"
    unfolding py_strip_def by (simp only: rev.simps dropWhile.simps)
  then show ?thesis ..
next
  case False
  let ?t = "dropWhile is_space s"
  have h: "\<not> is_space (hd ?t)"
    using False by (rule hd_dropWhile)
  with False have a: "py_strip s \<noteq> []" "hd (py_strip s) = hd ?t"
    unfolding py_strip_def using dropWhile_rev_hd [of ?t is_space] by simp_all
  then have "dropWhile is_space (rev ?t) \<noteq> []"
    by (simp add: py_strip_def)
  then have "\<not> is_space (hd (dropWhile is_space (rev ?t)))"
    by (rule hd_dropWhile)
  then have "\<not> is_space (last (py_strip s))"
    using a(1) by (simp add: py_strip_def last_rev)
  with a h show ?thesis by simp
qed

lemma py_strip_sublist: "sublist (py_strip s) s"
proof -
  have "suffix (dropWhile is_space (rev (dropWhile is_space s))) (rev (dropWhile is_space s))"
    by (rule suffix_dropWhile)
  then have "prefix (py_strip s) (dropWhile is_space s)"
    unfolding py_strip_def by (simp add: suffix_to_prefix)
  moreover have "suffix (dropWhile is_space s) s"
    by (rule suffix_dropWhile)
  ultimately show ?thesis
    by (meson prefix_imp_sublist suffix_imp_sublist sublist_order.order_trans)
qed


section \<open>Properties of the date normalizer\<close>

lemma upt_months: "[1 ..< 13] = [1, 2, 3, 4, 5, 6, 7, 8, 9, 10, 11, 12 :: nat]"
  by code_simp

lemma str_nat_months:
  "str_nat 1 = ''1''" "str_nat 2 = ''2''" "str_nat 3 = ''3''" "str_nat 4 = ''4''"
  "str_nat 5 = ''5''" "str_nat 6 = ''6''" "str_nat 7 = ''7''" "str_nat 8 = ''8''"
  "str_nat 9 = ''9''" "str_nat 10 = ''10''" "str_nat 11 = ''11''" "str_nat 12 = ''12''"
  by code_simp+

lemma take_three: "take 3 (c # cs) = c # take 2 cs"
  by (simp add: numeral_3_eq_3 numeral_2_eq_2)

lemma find_month:
  "find (\<lambda>n. str_nat n = m) [1 ..< 13] =
     (if m = ''1'' then Some 1 else if m = ''2'' then Some 2 else if m = ''3'' then Some 3
      else if m = ''4'' then Some 4 else if m = ''5'' then Some 5 else if m = ''6'' then Some 6
      else if m = ''7'' then Some 7 else if m = ''8'' then Some 8 else if m = ''9'' then Some 9
      else if m = ''10'' then Some 10 else if m = ''11'' then Some 11
      else if m = ''12'' then Some 12 else None)"
  unfolding upt_months find.simps str_nat_months by (simp only: eq_commute)

lemma month_in_table:
  assumes "m \<in> set (map fst month_names)"
  shows "(if py_isdigit m then dict_get month_names m m
          else if m \<noteq> [] then py_capitalize (take 3 m) else m) = spec_month m"
  using assms unfolding spec_month_def find_month
  by (auto simp add: month_names_def dict_get_def
      py_isdigit_def is_digit_def digits_def spec_abbreviations_def)

lemma month_not_in_table:
  assumes "m \<notin> set (map fst month_names)"
  shows "(if py_isdigit m then dict_get month_names m m
          else if m \<noteq> [] then py_capitalize (take 3 m) else m) = spec_month m"
proof -
  from assms have none: "find (\<lambda>n. str_nat n = m) [1 ..< 13] = None"
    unfolding find_month by (simp add: month_names_def)
  from assms have look: "map_of month_names m = None"
    by (simp add: map_of_eq_None_iff)
  show ?thesis
    unfolding spec_month_def none using look
    by (cases m) (simp_all add: dict_get_def py_isdigit_def py_capitalize_def take_three)
qed

lemma month_conversion:
  "(if py_isdigit m then dict_get month_names m m
    else if m \<noteq> [] then py_capitalize (take 3 m) else m) = spec_month m"
  using month_in_table month_not_in_table by blast

lemma spec_month_empty: "spec_month m = [] \<longleftrightarrow> m = []"
  unfolding spec_month_def find_month
  by (cases m) (auto simp add: spec_abbreviations_def)

text \<open>
  C2. The date normalizer computes what the specification describes: "Date not available"
  when the year is absent or empty, whatever month and day are; a month "1" to "12"
  replaced by its three-letter abbreviation, any other month made of digits left as it
  is, a textual month cut to three characters with the first upper-cased and the others
  lower-cased; and the output "month day year", "month year" or "year" according to
  which of month and day are present.
\<close>

theorem format_publication_date_normalizes:
  "format_publication_date EmptyStr = ''Date not available'' \<and>
   format_publication_date (DateDict d) =
     spec_normalize_date (map_of d ''year'') (map_of d ''month'') (map_of d ''day'')"
  unfolding format_publication_date.simps Let_def month_conversion
  by (cases "d = []")
    (auto simp add: date_not_available_def spec_normalize_date_def spec_present_def
      spec_text_def dict_get_def spec_month_empty split: option.splits)

theorem format_publication_date_normalizes_witness:
  "format_publication_date (DateDict [(''year'', ''2023''), (''month'', ''1''), (''day'', ''15'')])
     = ''Jan 15 2023'' \<and>
   format_publication_date (DateDict [(''year'', ''2023''), (''month'', ''JANUARY'')])
     = ''Jan 2023'' \<and>
   format_publication_date (DateDict [(''month'', ''3''), (''day'', ''15'')])
     = ''Date not available'' \<and>
   format_publication_date (DateDict [(''year'', ''2023''), (''month'', ''01''), (''day'', ''7'')])
     = ''01 7 2023''"
  using format_publication_date_normalizes
          [of "[(''year'', ''2023''), (''month'', ''1''), (''day'', ''15'')]"]
        format_publication_date_normalizes [of "[(''year'', ''2023''), (''month'', ''JANUARY'')]"]
        format_publication_date_normalizes [of "[(''month'', ''3''), (''day'', ''15'')]"]
        format_publication_date_normalizes
          [of "[(''year'', ''2023''), (''month'', ''01''), (''day'', ''7'')]"]
  unfolding spec_normalize_date_def spec_month_def find_month
  by (simp add: spec_present_def spec_text_def spec_abbreviations_def is_digit_def
      digits_def to_upper_def to_lower_def lowercase_def uppercase_def)


section \<open>Properties of the email selector\<close>

text \<open>
  C7. The corresponding-email selector returns the first element of the record's list
  of extracted emails when the list is not empty, and the sentinel
  "Email Unable to Retrieve" when it is empty.
\<close>

theorem extract_corresponding_email_first_or_sentinel:
  "extract_corresponding_email paper =
     (case d_emails paper of [] \<Rightarrow> ''Email Unable to Retrieve'' | e # rest \<Rightarrow> e)"
  by (simp add: extract_corresponding_email_def email_sentinel_def split: list.splits)


section \<open>Properties of the query builder\<close>

lemma sublist_py_join: "x \<in> set xs \<Longrightarrow> sublist x (py_join sep xs)"
  by (induction sep xs rule: py_join.induct) (auto simp add: sublist_append sublist_Cons_right)

lemma company_affiliation_parts_tagged:
  "company_affiliation_parts \<noteq> [] \<and> list_all (suffix ''[ad]'') company_affiliation_parts"
  by code_simp

lemma academic_exclusions_tagged:
  "academic_exclusions \<noteq> [] \<and> list_all (suffix ''[ad]'') academic_exclusions"
  by code_simp

text \<open>
  C5. For every query, the company-filtered query is the query in parentheses, followed
  by " AND (" and a disjunction of clauses that all end with the affiliation tag [ad]
  (there is at least one), followed by " NOT (" and a disjunction of academic exclusion
  clauses (at least one). So it has the parenthesized query at the front and contains
  "AND (", "[ad]" and "NOT (".
\<close>

theorem build_company_filtered_query_shape:
  "build_company_filtered_query query =
     ''('' @ query @ '') AND ('' @ py_join '' OR '' company_affiliation_parts
       @ '') NOT ('' @ py_join '' OR '' academic_exclusions @ '')'' \<and>
   company_affiliation_parts \<noteq> [] \<and>
   list_all (suffix ''[ad]'') company_affiliation_parts \<and>
   academic_exclusions \<noteq> [] \<and>
   prefix (''('' @ query @ '')'') (build_company_filtered_query query) \<and>
   sublist ''AND ('' (build_company_filtered_query query) \<and>
   sublist ''[ad]'' (build_company_filtered_query query) \<and>
   sublist ''NOT ('' (build_company_filtered_query query)"
proof -
  define A where "A = py_join '' OR '' company_affiliation_parts"
  define B where "B = py_join '' OR '' academic_exclusions"
  define r where "r = build_company_filtered_query query"
  have shape: "r = ''('' @ query @ '') AND ('' @ A @ '') NOT ('' @ B @ '')''"
    by (simp add: r_def A_def B_def build_company_filtered_query_def company_filter_def
        academic_filter_def)
  have pre: "prefix (''('' @ query @ '')'') r"
    unfolding shape by simp
  have "r = (''('' @ query @ '') '') @ ''AND ('' @ (A @ '') NOT ('' @ B @ '')'')"
    unfolding shape by simp
  then have a: "sublist ''AND ('' r"
    unfolding sublist_def by (intro exI)
  have "r = (''('' @ query @ '') AND ('' @ A @ '') '') @ ''NOT ('' @ (B @ '')'')"
    unfolding shape by simp
  then have n: "sublist ''NOT ('' r"
    unfolding sublist_def by (intro exI)
  have "suffix ''[ad]'' (hd company_affiliation_parts)"
    by code_simp
  then have "sublist ''[ad]'' (hd company_affiliation_parts)"
    by (rule suffix_imp_sublist)
  moreover have "sublist (hd company_affiliation_parts) A"
    unfolding A_def using company_affiliation_parts_tagged
    by (intro sublist_py_join) simp
  ultimately have tagged: "sublist ''[ad]'' A"
    by (rule sublist_order.order_trans)
  have "r = (''('' @ query @ '') AND ('') @ A @ ('') NOT ('' @ B @ '')'')"
    unfolding shape by simp
  then have "sublist A r"
    unfolding sublist_def by (intro exI)
  with tagged have t: "sublist ''[ad]'' r"
    by (rule sublist_order.order_trans)
  from shape pre a n t company_affiliation_parts_tagged academic_exclusions_tagged
  show ?thesis
    unfolding r_def A_def B_def by (intro conjI) (erule conjunct1 conjunct2 | assumption)+
qed

theorem build_company_filtered_query_shape_witness:
  "prefix ''(cancer therapy)'' (build_company_filtered_query ''cancer therapy'') \<and>
   sublist ''AND ('' (build_company_filtered_query ''cancer therapy'') \<and>
   sublist ''[ad]'' (build_company_filtered_query ''cancer therapy'') \<and>
   sublist ''NOT ('' (build_company_filtered_query ''cancer therapy'')"
  using build_company_filtered_query_shape [of "''cancer therapy''"]
  by (elim conjE) (intro conjI, simp_all only: append.simps)


section \<open>Properties of the response parser\<close>

subsection \<open>The pattern of the split\<close>

lemma run_rests_star:
  "set (run_rests 0 None P s) = {drop k s | k. k \<le> length (takeWhile P s)}"
proof (induction s)
  case Nil
  then show ?case by simp
next
  case (Cons c cs)
  show ?case
  proof (cases "P c")
    case True
    have "{drop k (c # cs) | k. k \<le> Suc (length (takeWhile P cs))} =
          insert (c # cs) {drop k cs | k. k \<le> length (takeWhile P cs)}"
      (is "?L = ?R")
    proof
      show "?L \<subseteq> ?R"
      proof
        fix x assume "x \<in> ?L"
        then obtain k where k: "x = drop k (c # cs)" "k \<le> Suc (length (takeWhile P cs))" by blast
        then show "x \<in> ?R" by (cases k) auto
      qed
      show "?R \<subseteq> ?L"
      proof
        fix x assume "x \<in> ?R"
        then consider "x = c # cs" | k where "x = drop k cs" "k \<le> length (takeWhile P cs)" by blast
        then show "x \<in> ?L"
        proof cases
          case 1
          then have "x = drop 0 (c # cs)" by simp
          then show ?thesis by blast
        next
          case 2
          then have "x = drop (Suc k) (c # cs)" "Suc k \<le> Suc (length (takeWhile P cs))" by simp_all
          then show ?thesis by blast
        qed
      qed
    qed
    with True Cons show ?thesis by (simp add: Let_def)
  next
    case False
    then show ?thesis by (auto simp add: Let_def)
  qed
qed

lemma run_then_char:
  "(\<exists>k \<le> length (takeWhile P s). prefix [x] (drop k s)) \<longleftrightarrow>
   (\<exists>attrs rest. s = attrs @ [x] @ rest \<and> (\<forall>c \<in> set attrs. P c))"
proof
  assume "\<exists>k \<le> length (takeWhile P s). prefix [x] (drop k s)"
  then obtain k rest where k: "k \<le> length (takeWhile P s)" and d: "drop k s = [x] @ rest"
    by (auto simp add: prefix_def)
  have "take k s = take k (takeWhile P s @ dropWhile P s)"
    by simp
  also have "\<dots> = take k (takeWhile P s)"
    using k by (simp del: takeWhile_dropWhile_id)
  finally have "set (take k s) \<subseteq> set (takeWhile P s)"
    by (simp add: set_take_subset)
  then have "\<forall>c \<in> set (take k s). P c"
    by (auto dest: set_takeWhileD)
  moreover have "take k s @ drop k s = s"
    by (rule append_take_drop_id)
  with d have "s = take k s @ [x] @ rest"
    by simp
  ultimately show "\<exists>attrs rest. s = attrs @ [x] @ rest \<and> (\<forall>c \<in> set attrs. P c)"
    by blast
next
  assume "\<exists>attrs rest. s = attrs @ [x] @ rest \<and> (\<forall>c \<in> set attrs. P c)"
  then obtain attrs rest where s: "s = attrs @ [x] @ rest" and p: "\<forall>c \<in> set attrs. P c"
    by blast
  have "takeWhile P s = attrs @ takeWhile P ([x] @ rest)"
    unfolding s using p by (simp add: takeWhile_append2)
  then have "length attrs \<le> length (takeWhile P s)" by simp
  moreover have "prefix [x] (drop (length attrs) s)"
    unfolding s by simp
  ultimately show "\<exists>k \<le> length (takeWhile P s). prefix [x] (drop k s)" by blast
qed

lemma article_pattern_match:
  "rx_match article_pattern [] s \<noteq> [] \<longleftrightarrow> article_pattern_matches_at s"
proof -
  let ?A = "''<PubmedArticle''"
  let ?P = "not_char CHR ''>''"
  have "rx_match article_pattern [] s \<noteq> [] \<longleftrightarrow>
      prefix ?A s \<and> (\<exists>r \<in> set (run_rests 0 None ?P (drop (length ?A) s)). prefix ''>'' r)"
    by (auto simp add: article_pattern_def star_def)
  also have "\<dots> \<longleftrightarrow> prefix ?A s \<and>
      (\<exists>k \<le> length (takeWhile ?P (drop (length ?A) s)). prefix ''>'' (drop k (drop (length ?A) s)))"
    unfolding run_rests_star by blast
  also have "\<dots> \<longleftrightarrow> prefix ?A s \<and>
      (\<exists>attrs rest. drop (length ?A) s = attrs @ ''>'' @ rest \<and> (\<forall>c \<in> set attrs. ?P c))"
    unfolding run_then_char ..
  also have "\<dots> \<longleftrightarrow> article_pattern_matches_at s"
  proof
    assume "prefix ?A s \<and>
      (\<exists>attrs rest. drop (length ?A) s = attrs @ ''>'' @ rest \<and> (\<forall>c \<in> set attrs. ?P c))"
    then obtain attrs rest where p: "prefix ?A s" and d: "drop (length ?A) s = attrs @ ''>'' @ rest"
      and a: "\<forall>c \<in> set attrs. ?P c" by blast
    from p obtain t where "s = ?A @ t" by (auto simp add: prefix_def)
    with d have "s = ?A @ attrs @ ''>'' @ rest" by simp
    moreover from a have "CHR ''>'' \<notin> set attrs" by (auto simp add: not_char_def)
    ultimately show "article_pattern_matches_at s" unfolding article_pattern_matches_at_def by blast
  next
    assume "article_pattern_matches_at s"
    then obtain attrs rest where s: "s = ?A @ attrs @ ''>'' @ rest" and a: "CHR ''>'' \<notin> set attrs"
      unfolding article_pattern_matches_at_def by blast
    from s have "prefix ?A s" by simp
    moreover from s have "drop (length ?A) s = attrs @ ''>'' @ rest" by simp
    moreover from a have "\<forall>c \<in> set attrs. ?P c" by (auto simp add: not_char_def)
    ultimately show "prefix ?A s \<and>
      (\<exists>attrs rest. drop (length ?A) s = attrs @ ''>'' @ rest \<and> (\<forall>c \<in> set attrs. ?P c))"
      by blast
  qed
  finally show ?thesis .
qed

lemma re_search_None:
  "re_search r s = None \<longleftrightarrow> (\<forall>before rest. s = before @ rest \<longrightarrow> rx_match r [] rest = [])"
proof (induction s)
  case Nil
  then show ?case by (auto split: list.splits)
next
  case (Cons c cs)
  have "(\<forall>before rest. c # cs = before @ rest \<longrightarrow> rx_match r [] rest = []) \<longleftrightarrow>
        rx_match r [] (c # cs) = [] \<and> (\<forall>before rest. cs = before @ rest \<longrightarrow> rx_match r [] rest = [])"
    by (auto simp add: Cons_eq_append_conv)
  with Cons show ?case
    by (auto split: list.splits option.splits)
qed

lemma re_search_article_None:
  "re_search article_pattern s = None \<longleftrightarrow> \<not> article_pattern_matches_in s"
  unfolding re_search_None article_pattern_matches_in_def article_pattern_match [symmetric] by blast

text \<open>The pattern does not end the tag name: the opening tag of the enclosing
  \<open>PubmedArticleSet\<close> element is a match too, and a document that has it is split there
  as well.\<close>

lemma set_tag_matches:
  "article_pattern_matches_at ''<PubmedArticleSet>''"
  unfolding article_pattern_matches_at_def
  by (intro exI [of _ "''Set''"] exI [of _ "[]"]) simp

lemma split_at_set_tag:
  "re_split article_pattern ''<PubmedArticleSet><PubmedArticle>a'' = [[], [], ''a'']"
  by code_simp

subsection \<open>The loop over the segments\<close>

lemma parse_articles_eq:
  "parse_articles pmids titles i articles papers =
     papers @ map (\<lambda>k. parse_article pmids titles (i + k) (articles ! k))
                [0 ..< min (length articles) (length pmids - i)]"
proof (induction articles arbitrary: i papers)
  case Nil
  then show ?case by simp
next
  case (Cons article articles)
  show ?case
  proof (cases "i \<ge> length pmids")
    case True
    then show ?thesis by simp
  next
    case False
    then have m: "min (length (article # articles)) (length pmids - i) =
        Suc (min (length articles) (length pmids - Suc i))"
      by simp
    show ?thesis
      unfolding m map_upt_Suc using False
      by (simp add: Cons.IH)
  qed
qed

lemma collect_authors_eq:
  "collect_authors sections authors = authors @ List.map_filter author_of_section sections"
  by (induction sections arbitrary: authors)
    (simp_all add: List.map_filter_simps split: option.splits)

lemma parse_xml_response_eq:
  "parse_xml_response xml_content =
     map (\<lambda>k. parse_article (re_findall pmid_pattern xml_content)
                 (re_findall title_pattern xml_content) k
                 (drop 1 (re_split article_pattern xml_content) ! k))
       [0 ..< min (length (drop 1 (re_split article_pattern xml_content)))
                  (length (re_findall pmid_pattern xml_content))]"
  by (simp add: parse_xml_response_def Let_def parse_articles_eq)

lemma parse_article_pmid:
  "d_pmid (parse_article pmids titles i article) = (if i < length pmids then pmids ! i else [])"
  by (simp add: parse_article_def Let_def split: option.splits prod.splits)

lemma parse_article_title:
  "d_title (parse_article pmids titles i article) = (if i < length titles then titles ! i else [])"
  by (simp add: parse_article_def Let_def split: option.splits prod.splits)

lemma example_document_parts:
  "re_findall pmid_pattern example_document = [''1'']"
  "re_findall title_pattern example_document = [''T'']"
  "re_split article_pattern example_document =
     [''x'', ''<PMID>1</PMID><ArticleTitle>T</ArticleTitle>a@b.cd'', ''z'']"
  by code_simp+

text \<open>
  The loop by index: with the identifiers and the titles found in the whole document, the
  parser returns as many records as there are pieces after the first or identifiers,
  whichever is fewer, and the record at index i is built from the piece at index i + 1,
  with the identifier at index i and the title at index i (the empty title when there
  are fewer titles).
\<close>

lemma parse_xml_response_by_index:
  fixes xml_content :: string
  defines "pmids \<equiv> re_findall pmid_pattern xml_content"
    and "titles \<equiv> re_findall title_pattern xml_content"
    and "segments \<equiv> drop 1 (re_split article_pattern xml_content)"
  shows "length (parse_xml_response xml_content) = min (length segments) (length pmids) \<and>
     (\<forall>i < min (length segments) (length pmids).
        parse_xml_response xml_content ! i = parse_article pmids titles i (segments ! i) \<and>
        d_pmid (parse_xml_response xml_content ! i) = pmids ! i \<and>
        d_title (parse_xml_response xml_content ! i) =
          (if i < length titles then titles ! i else []))"
proof -
  let ?n = "min (length segments) (length pmids)"
  have eq: "parse_xml_response xml_content =
      map (\<lambda>k. parse_article pmids titles k (segments ! k)) [0 ..< ?n]"
    unfolding pmids_def titles_def segments_def by (rule parse_xml_response_eq)
  have len: "length (parse_xml_response xml_content) = ?n"
    unfolding eq by simp
  have nth: "parse_xml_response xml_content ! i = parse_article pmids titles i (segments ! i)"
    if "i < ?n" for i
    unfolding eq using that by simp
  have "d_pmid (parse_xml_response xml_content ! i) = pmids ! i" if "i < ?n" for i
    using that by (simp add: nth parse_article_pmid)
  moreover have "d_title (parse_xml_response xml_content ! i) =
      (if i < length titles then titles ! i else [])" if "i < ?n" for i
    using that by (simp add: nth parse_article_title)
  ultimately show ?thesis
    using len nth by blast
qed

lemma example_document_record:
  "length (parse_xml_response example_document) = 1 \<and>
   d_pmid (parse_xml_response example_document ! 0) = ''1'' \<and>
   d_title (parse_xml_response example_document ! 0) = ''T''"
  using parse_xml_response_by_index [of example_document]
  by (simp add: example_document_parts parse_article_pmid parse_article_title)

text \<open>
  C1. The claim has the document split on record-start markers, the record segment at
  index i given the identifier at index i, and as many records as there are record
  segments or identifiers, whichever is fewer. On a document whose records lie inside a
  \<open>PubmedArticleSet\<close> element the parser does otherwise, because its pattern matches
  the opening tag of the set as well. In the document of two articles the record segments
  are the two articles, and the claim gives the first identifier the email of the first
  article and the second identifier the email of the second; the parser returns a first
  record without email and gives the second identifier the email of the first article.
  In the document of one article with two identifier tags there are one record segment
  and two identifiers; the parser returns two records.
\<close>

theorem parse_xml_response_set_tag_shift:
  "spec_record_segments example_set_document =
     [''<PMID>1</PMID>a@b.cd</PubmedArticle>'',
      ''<PMID>2</PMID>e@f.gh</PubmedArticle></PubmedArticleSet>''] \<and>
   re_findall pmid_pattern example_set_document = [''1'', ''2''] \<and>
   map d_emails (spec_parse_xml_response example_set_document) = [[''a@b.cd''], [''e@f.gh'']] \<and>
   map d_pmid (parse_xml_response example_set_document) = [''1'', ''2''] \<and>
   map d_emails (parse_xml_response example_set_document) = [[], [''a@b.cd'']] \<and>
   length (spec_record_segments example_one_article) = 1 \<and>
   length (re_findall pmid_pattern example_one_article) = 2 \<and>
   length (parse_xml_response example_one_article) = 2"
proof -
  have "spec_record_segments example_set_document =
     [''<PMID>1</PMID>a@b.cd</PubmedArticle>'',
      ''<PMID>2</PMID>e@f.gh</PubmedArticle></PubmedArticleSet>'']"
    by code_simp
  moreover have "re_findall pmid_pattern example_set_document = [''1'', ''2'']"
    by code_simp
  moreover have "map d_emails (spec_parse_xml_response example_set_document) =
      [[''a@b.cd''], [''e@f.gh'']]"
    by code_simp
  moreover have "map d_pmid (parse_xml_response example_set_document) = [''1'', ''2'']"
    by code_simp
  moreover have "map d_emails (parse_xml_response example_set_document) = [[], [''a@b.cd'']]"
    by code_simp
  moreover have "length (spec_record_segments example_one_article) = 1"
    by code_simp
  moreover have "length (re_findall pmid_pattern example_one_article) = 2"
    by code_simp
  moreover have "length (parse_xml_response example_one_article) = 2"
    by code_simp
  ultimately show ?thesis
    by blast
qed

text \<open>
  Where the pattern of the code matches nowhere in the document (as in the empty
  document), or no identifier is found in it, the parser returns no record.
\<close>

lemma parse_xml_response_no_match:
  "\<not> article_pattern_matches_in xml_content \<or> re_findall pmid_pattern xml_content = [] \<Longrightarrow>
   parse_xml_response xml_content = []"
  unfolding re_search_article_None [symmetric]
  by (auto simp add: parse_xml_response_def Let_def parse_articles_eq re_split.simps)

lemma parse_xml_response_empty_document:
  "parse_xml_response [] = []"
proof -
  have "re_search article_pattern [] = None"
    by code_simp
  then have "\<not> article_pattern_matches_in []"
    by (rule iffD1 [OF re_search_article_None])
  then show ?thesis
    by (intro parse_xml_response_no_match) simp
qed

text \<open>
  C10. The claim has the parser return no record for a document without a record-start
  marker. The document with a book record inside a \<open>PubmedArticleSet\<close> element has no
  record-start marker and no record segment, and it has an identifier; the parser
  splits it at the opening tag of the set and returns one record, with the identifier of
  the book.
\<close>

theorem parse_xml_response_book_record:
  "re_search record_start_marker example_book_document = None \<and>
   spec_record_segments example_book_document = [] \<and>
   spec_parse_xml_response example_book_document = [] \<and>
   parse_xml_response example_book_document =
     [\<lparr>d_pmid = ''7'', d_title = [], d_authors = [], d_pub_date = EmptyStr, d_emails = []\<rparr>]"
proof -
  have "re_search record_start_marker example_book_document = None"
    by code_simp
  moreover have "spec_record_segments example_book_document = []"
    by code_simp
  moreover have "spec_parse_xml_response example_book_document = []"
    by code_simp
  moreover have "parse_xml_response example_book_document =
     [\<lparr>d_pmid = ''7'', d_title = [], d_authors = [], d_pub_date = EmptyStr, d_emails = []\<rparr>]"
    by code_simp
  ultimately show ?thesis
    by blast
qed

lemma example_searches:
  "re_search first_name_pattern example_section_no_first_name = None"
  "re_search affiliation_pattern example_section_no_affiliation = None"
  "map_option (\<lambda>(before, gs, rest). match_group gs 1)
     (re_search last_name_pattern example_section_no_affiliation) = Some ''Poe''"
  "map_option (\<lambda>(before, gs, rest). match_group gs 1)
     (re_search first_name_pattern example_section_no_affiliation) = Some ''Ann''"
  by code_simp+

lemma example_article_sections:
  "re_findall author_section_pattern example_article =
     [example_section_no_first_name, example_section_no_affiliation]"
  by code_simp

lemma example_section_full_author:
  "author_of_section example_section_full =
     Some \<lparr>a_name = ''John Doe'', a_affiliation = ''Pfizer Inc.''\<rparr>"
  by code_simp

text \<open>
  C4. The authors of a record are obtained from the author sections of its segment, each
  one examined in order. A section in which the last-name pattern or the first-name
  pattern matches nowhere gives no author. A section in which both match gives an author
  whose name is the first name, a space and the last name, stripped; its affiliation is
  the stripped affiliation field when the affiliation pattern matches, and the empty
  string when it does not: the author is kept.
\<close>

theorem author_sections_examined:
  "d_authors (parse_article pmids titles i article) =
     List.map_filter author_of_section (re_findall author_section_pattern article) \<and>
   (re_search last_name_pattern author_section = None \<or>
    re_search first_name_pattern author_section = None \<longrightarrow>
      author_of_section author_section = None) \<and>
   (re_search last_name_pattern author_section = Some (lb, lgs, lr) \<and>
    re_search first_name_pattern author_section = Some (fb, fgs, fr) \<longrightarrow>
      author_of_section author_section =
        Some \<lparr>a_name = py_strip (match_group fgs 1 @ '' '' @ match_group lgs 1),
              a_affiliation =
                (case re_search affiliation_pattern author_section of
                   None \<Rightarrow> []
                 | Some (ab, ags, ar) \<Rightarrow> py_strip (match_group ags 1))\<rparr>)"
  by (auto simp add: parse_article_def Let_def collect_authors_eq author_of_section_def
      split: option.splits prod.splits)

theorem author_sections_examined_witness:
  "d_authors (parse_article [] [] 0 example_article) =
     [\<lparr>a_name = ''Ann Poe'', a_affiliation = []\<rparr>] \<and>
   re_search first_name_pattern example_section_no_first_name = None \<and>
   author_of_section example_section_no_first_name = None \<and>
   re_search last_name_pattern example_section_no_affiliation \<noteq> None \<and>
   re_search first_name_pattern example_section_no_affiliation \<noteq> None \<and>
   re_search affiliation_pattern example_section_no_affiliation = None \<and>
   author_of_section example_section_no_affiliation =
     Some \<lparr>a_name = ''Ann Poe'', a_affiliation = []\<rparr>"
proof -
  have strip: "py_strip ''Ann Poe'' = ''Ann Poe''"
    by code_simp
  obtain lb lgs lr where last_name:
    "re_search last_name_pattern example_section_no_affiliation = Some (lb, lgs, lr)"
    "match_group lgs 1 = ''Poe''"
    using example_searches(3) by auto
  obtain fb fgs fr where first_name:
    "re_search first_name_pattern example_section_no_affiliation = Some (fb, fgs, fr)"
    "match_group fgs 1 = ''Ann''"
    using example_searches(4) by auto
  have dropped: "author_of_section example_section_no_first_name = None"
    using author_sections_examined [of "[]" "[]" 0 example_article example_section_no_first_name]
    by (simp add: example_searches(1))
  have kept: "author_of_section example_section_no_affiliation =
      Some \<lparr>a_name = ''Ann Poe'', a_affiliation = []\<rparr>"
    using author_sections_examined
      [of "[]" "[]" 0 example_article example_section_no_affiliation lb lgs lr fb fgs fr]
      last_name first_name
    by (simp add: example_searches(2) strip)
  have "d_authors (parse_article [] [] 0 example_article) =
      List.map_filter author_of_section (re_findall author_section_pattern example_article)"
    using author_sections_examined [of "[]" "[]" 0 example_article] by simp
  then have "d_authors (parse_article [] [] 0 example_article) =
      [\<lparr>a_name = ''Ann Poe'', a_affiliation = []\<rparr>]"
    by (simp add: example_article_sections List.map_filter_simps dropped kept)
  then show ?thesis
    using dropped kept last_name(1) first_name(1) by (simp add: example_searches(1,2))
qed


section \<open>Properties of the remote operations\<close>

lemma make_request_events:
  "snd (make_request net url params tr) = tr @ [Sleep, Get url params]"
  by (simp add: make_request_def Let_def split: sum.splits)

lemma make_request_failure:
  "net (tr @ [Sleep, Get url params]) = Inl e \<Longrightarrow>
   make_request net url params tr = (Inl e, tr @ [Sleep, Get url params])"
  by (simp add: make_request_def Let_def)

lemma make_request_status:
  "net (tr @ [Sleep, Get url params]) = Inr response \<Longrightarrow>
   400 \<le> resp_status response \<and> resp_status response < 600 \<Longrightarrow>
   make_request net url params tr =
     (Inl (RequestException (''HTTPError '' @ str_nat (resp_status response))),
      tr @ [Sleep, Get url params])"
  by (simp add: make_request_def Let_def raise_for_status_def)

lemma make_request_success:
  "net (tr @ [Sleep, Get url params]) = Inr response \<Longrightarrow>
   \<not> (400 \<le> resp_status response \<and> resp_status response < 600) \<Longrightarrow>
   make_request net url params tr = (Inr response, tr @ [Sleep, Get url params])"
  by (auto simp add: make_request_def Let_def raise_for_status_def)

lemma fetch_events:
  "snd (fetch_paper_details net pmids tr) =
     (if pmids = [] then tr else tr @ [Sleep, Get FETCH_URL (fetch_params pmids)])"
proof -
  have "snd (make_request net FETCH_URL (fetch_params pmids) tr) =
      tr @ [Sleep, Get FETCH_URL (fetch_params pmids)]"
    by (rule make_request_events)
  then show ?thesis
    by (auto simp add: fetch_paper_details_def split: prod.splits sum.splits exn.splits)
qed

lemma fetch_eventsD:
  "fetch_paper_details net pmids tr = (r, tr') \<Longrightarrow>
   tr' = (if pmids = [] then tr else tr @ [Sleep, Get FETCH_URL (fetch_params pmids)])"
  using fetch_events [of net pmids tr] by simp

lemma urls_differ: "FETCH_URL \<noteq> SEARCH_URL"
  by (simp add: FETCH_URL_def SEARCH_URL_def)

lemma search_body_search_requests:
  "filter is_search_request (drop (length tr) (snd (search_body net params tr))) =
     [Get SEARCH_URL params]"
proof -
  obtain r where mr:
    "make_request net SEARCH_URL params tr = (r, tr @ [Sleep, Get SEARCH_URL params])"
    using make_request_events [of net SEARCH_URL params tr]
    by (cases "make_request net SEARCH_URL params tr") simp
  show ?thesis
    unfolding search_body_def mr
    by (auto simp add: is_search_request_def urls_differ
        split: prod.splits sum.splits dest!: fetch_eventsD)
qed

lemma search_papers_events:
  "snd (search_papers net query max_results filter_companies tr) =
   snd (search_body net
          (search_params (if filter_companies then build_company_filtered_query query
                          else query) max_results) tr)"
  by (simp add: search_papers_def Let_def split: prod.splits sum.splits exn.splits if_splits)

lemma search_body_request_failed:
  "make_request net SEARCH_URL params tr = (Inl e, tr') \<Longrightarrow>
   search_body net params tr = (Inl e, tr')"
  by (simp add: search_body_def)

lemma search_body_missing_field:
  "make_request net SEARCH_URL params tr = (Inr response, tr') \<Longrightarrow>
   resp_json response = Inr data \<Longrightarrow>
   json_contains ''esearchresult'' data = Inr False \<Longrightarrow>
   search_body net params tr =
     (Inl (PubMedAPIError ''Invalid response format from PubMed search''), tr')"
  by (simp add: search_body_def search_pmids_def)

lemma search_papers_passes:
  "search_body net
     (search_params (if filter_companies then build_company_filtered_query query else query)
        max_results) tr = (Inl e, tr') \<Longrightarrow>
   \<not> is_exception e \<Longrightarrow>
   search_papers net query max_results filter_companies tr = (Inl e, tr')"
  by (cases e) (simp_all add: search_papers_def Let_def)

lemma search_papers_wraps:
  "search_body net
     (search_params (if filter_companies then build_company_filtered_query query else query)
        max_results) tr = (Inl e, tr') \<Longrightarrow>
   is_exception e \<Longrightarrow>
   search_papers net query max_results filter_companies tr =
     (Inl (PubMedAPIError
        (case e of
           RequestException m \<Rightarrow> ''Failed to search PubMed: '' @ m
         | _ \<Rightarrow> ''Unexpected error during PubMed search: '' @ exn_str e)), tr')"
  by (cases e) (simp_all add: search_papers_def Let_def)

lemma search_papers_returns:
  "search_body net
     (search_params (if filter_companies then build_company_filtered_query query else query)
        max_results) tr = (Inr papers, tr') \<Longrightarrow>
   search_papers net query max_results filter_companies tr = (Inr papers, tr')"
  by (simp add: search_papers_def Let_def)

text \<open>
  C8. The detail fetch of an empty list of identifiers returns the empty list and leaves
  the events as they were: no delay and no request.
\<close>

theorem fetch_paper_details_empty:
  "fetch_paper_details net [] tr = (Inr [], tr)"
  by (simp add: fetch_paper_details_def)

text \<open>
  C6. With pre-filtering disabled, a search makes exactly one request to the search
  endpoint, and the term of that request is the query as given.
\<close>

theorem search_papers_unfiltered_query:
  "filter is_search_request
     (drop (length tr) (snd (search_papers net query max_results False tr))) =
     [Get SEARCH_URL (search_params query max_results)] \<and>
   dict_get (search_params query max_results) ''term'' [] = query"
  by (simp add: search_papers_events search_body_search_requests search_params_def
      dict_get_def)

text \<open>
  C3, as stated, fails for the detail fetch: a response whose text is not a document
  of records is parsed all the same, and the fetch returns the empty list.
\<close>

theorem fetch_paper_details_malformed_counterexample:
  "\<not> is_api_error
       (fst (fetch_paper_details (network_answering example_response_no_field) [''12345''] []))"
proof -
  have "parse_xml_response ''{}'' = []"
    by code_simp
  then show ?thesis
    by (simp add: fetch_paper_details_def make_request_def raise_for_status_def
        network_answering_def example_response_no_field_def)
qed

text \<open>
  C3, amended. A search raises the API error when the request fails with a request
  exception, when the response has a status from 400 to 599, and when the decoded body
  has no \<open>esearchresult\<close> entry; in each case the search request is the only request made,
  so the detail fetch and the parser are not reached. A detail fetch of a non-empty list
  raises the API error when the request fails with a request exception and when the
  status is from 400 to 599; it has no check of the shape of the response: with any other
  status it returns what the parser makes of the text.
\<close>

theorem remote_operations_api_error:
  fixes net :: network and query :: string and max_results :: int and filter_companies :: bool
  defines "search_request \<equiv>
    Get SEARCH_URL (search_params (if filter_companies then build_company_filtered_query query
                                   else query) max_results)"
  shows
  "(net (tr @ [Sleep, search_request]) = Inl (RequestException m) \<longrightarrow>
      search_papers net query max_results filter_companies tr =
        (Inl (PubMedAPIError (''Failed to search PubMed: '' @ m)), tr @ [Sleep, search_request])) \<and>
   (net (tr @ [Sleep, search_request]) = Inr response \<and>
    400 \<le> resp_status response \<and> resp_status response < 600 \<longrightarrow>
      is_api_error (fst (search_papers net query max_results filter_companies tr)) \<and>
      snd (search_papers net query max_results filter_companies tr) = tr @ [Sleep, search_request]) \<and>
   (net (tr @ [Sleep, search_request]) = Inr response \<and>
    \<not> (400 \<le> resp_status response \<and> resp_status response < 600) \<and>
    resp_json response = Inr data \<and> json_contains ''esearchresult'' data = Inr False \<longrightarrow>
      is_api_error (fst (search_papers net query max_results filter_companies tr)) \<and>
      snd (search_papers net query max_results filter_companies tr) = tr @ [Sleep, search_request]) \<and>
   (pmids \<noteq> [] \<and> net (tr @ [Sleep, Get FETCH_URL (fetch_params pmids)]) = Inl (RequestException m) \<longrightarrow>
      fetch_paper_details net pmids tr =
        (Inl (PubMedAPIError (''Failed to fetch paper details: '' @ m)),
         tr @ [Sleep, Get FETCH_URL (fetch_params pmids)])) \<and>
   (pmids \<noteq> [] \<and> net (tr @ [Sleep, Get FETCH_URL (fetch_params pmids)]) = Inr response \<and>
    400 \<le> resp_status response \<and> resp_status response < 600 \<longrightarrow>
      is_api_error (fst (fetch_paper_details net pmids tr))) \<and>
   (pmids \<noteq> [] \<and> net (tr @ [Sleep, Get FETCH_URL (fetch_params pmids)]) = Inr response \<and>
    \<not> (400 \<le> resp_status response \<and> resp_status response < 600) \<longrightarrow>
      fetch_paper_details net pmids tr =
        (Inr (parse_xml_response (resp_text response)),
         tr @ [Sleep, Get FETCH_URL (fetch_params pmids)]))"
proof -
  let ?params = "search_params (if filter_companies then build_company_filtered_query query
                                else query) max_results"
  let ?sp = "search_papers net query max_results filter_companies tr"
  let ?tr = "tr @ [Sleep, Get SEARCH_URL ?params]"
  have s1: "?sp = (Inl (PubMedAPIError (''Failed to search PubMed: '' @ m)), ?tr)"
    if "net ?tr = Inl (RequestException m)"
  proof -
    from that have "search_body net ?params tr = (Inl (RequestException m), ?tr)"
      by (intro search_body_request_failed make_request_failure)
    then show ?thesis
      by (simp add: search_papers_wraps)
  qed
  have s2: "is_api_error (fst ?sp) \<and> snd ?sp = ?tr"
    if "net ?tr = Inr response" "400 \<le> resp_status response \<and> resp_status response < 600"
  proof -
    from that have "search_body net ?params tr =
        (Inl (RequestException (''HTTPError '' @ str_nat (resp_status response))), ?tr)"
      by (intro search_body_request_failed make_request_status)
    then show ?thesis
      by (simp add: search_papers_wraps)
  qed
  have s3: "is_api_error (fst ?sp) \<and> snd ?sp = ?tr"
    if "net ?tr = Inr response"
      "\<not> (400 \<le> resp_status response \<and> resp_status response < 600)"
      "resp_json response = Inr data" "json_contains ''esearchresult'' data = Inr False"
  proof -
    from that(1,2) have "make_request net SEARCH_URL ?params tr = (Inr response, ?tr)"
      by (rule make_request_success)
    then have "search_body net ?params tr =
        (Inl (PubMedAPIError ''Invalid response format from PubMed search''), ?tr)"
      using that(3,4) by (rule search_body_missing_field)
    then show ?thesis
      by (simp add: search_papers_wraps)
  qed
  let ?ftr = "tr @ [Sleep, Get FETCH_URL (fetch_params pmids)]"
  have f1: "fetch_paper_details net pmids tr =
      (Inl (PubMedAPIError (''Failed to fetch paper details: '' @ m)), ?ftr)"
    if "pmids \<noteq> []" "net ?ftr = Inl (RequestException m)"
    using that by (simp add: fetch_paper_details_def make_request_failure)
  have f2: "is_api_error (fst (fetch_paper_details net pmids tr))"
    if "pmids \<noteq> []" "net ?ftr = Inr response"
      "400 \<le> resp_status response \<and> resp_status response < 600"
    using that by (simp add: fetch_paper_details_def make_request_status)
  have f3: "fetch_paper_details net pmids tr =
      (Inr (parse_xml_response (resp_text response)), ?ftr)"
    if "pmids \<noteq> []" "net ?ftr = Inr response"
      "\<not> (400 \<le> resp_status response \<and> resp_status response < 600)"
    using that by (simp add: fetch_paper_details_def make_request_success)
  show ?thesis
    unfolding search_request_def using s1 s2 s3 f1 f2 f3 by blast
qed

theorem remote_operations_api_error_witness:
  "search_papers network_timeout ''q'' 5 False [] =
     (Inl (PubMedAPIError ''Failed to search PubMed: timeout''),
      [Sleep, Get SEARCH_URL (search_params ''q'' 5)]) \<and>
   is_api_error
     (fst (search_papers (network_answering example_response_error_status) ''q'' 5 False [])) \<and>
   is_api_error
     (fst (search_papers (network_answering example_response_no_field) ''q'' 5 False [])) \<and>
   fetch_paper_details network_timeout [''1''] [] =
     (Inl (PubMedAPIError ''Failed to fetch paper details: timeout''),
      [Sleep, Get FETCH_URL (fetch_params [''1''])]) \<and>
   is_api_error
     (fst (fetch_paper_details (network_answering example_response_error_status) [''1''] [])) \<and>
   fetch_paper_details (network_answering example_response_no_field) [''1''] [] =
     (Inr (parse_xml_response ''{}''), [Sleep, Get FETCH_URL (fetch_params [''1''])])"
  using
    remote_operations_api_error
      [where net = network_timeout and tr = "[]"
         and query = "''q''" and max_results = 5 and filter_companies = False
         and m = "''timeout''" and pmids = "[''1'']"]
    remote_operations_api_error
      [where net = "network_answering example_response_error_status"
         and tr = "[]" and query = "''q''" and max_results = 5 and filter_companies = False
         and response = example_response_error_status and pmids = "[''1'']"]
    remote_operations_api_error
      [where net = "network_answering example_response_no_field"
         and tr = "[]" and query = "''q''" and max_results = 5 and filter_companies = False
         and response = example_response_no_field and data = "JObj []" and pmids = "[''1'']"]
  by (simp add: network_timeout_def network_answering_def example_response_error_status_def
      example_response_no_field_def)

text \<open>
  C9, as stated, fails: the handlers of the search catch the subclasses of \<open>Exception\<close>,
  and an interrupt raised inside the request is not one. It leaves the search as it is.
\<close>

theorem search_papers_interrupt_counterexample:
  "isl (fst (search_papers network_interrupted ''q'' 5 False [])) \<and>
   \<not> is_api_error (fst (search_papers network_interrupted ''q'' 5 False []))"
  by (simp add: search_papers_def search_body_def make_request_def network_interrupted_def)

text \<open>
  C9, amended. Of the subclasses of \<open>Exception\<close>, the search lets only the API error
  escape: an exception of such a class raised in the body of its \<open>try\<close> statement, by the
  request, the decoding, the reading of the body or the detail fetch, is caught and the
  API error raised in its place, and an exception of such a class that leaves the search
  is the API error. In particular the API error that the search raises itself for a body
  without the \<open>esearchresult\<close> entry is caught and raised again as the API error, with
  the message of the general handler. An exception that is not a subclass of
  \<open>Exception\<close> is not caught: it leaves the search unchanged.
\<close>

theorem search_papers_exceptions:
  fixes net :: network and query :: string and max_results :: int and filter_companies :: bool
  defines "params \<equiv>
    search_params (if filter_companies then build_company_filtered_query query else query)
      max_results"
  shows
  "(fst (search_body net params tr) = Inl e \<and> is_exception e \<longrightarrow>
      is_api_error (fst (search_papers net query max_results filter_companies tr))) \<and>
   (fst (search_body net params tr) = Inl e \<and> \<not> is_exception e \<longrightarrow>
      fst (search_papers net query max_results filter_companies tr) = Inl e) \<and>
   (fst (search_papers net query max_results filter_companies tr) = Inl e \<and> is_exception e \<longrightarrow>
      is_api_error (fst (search_papers net query max_results filter_companies tr))) \<and>
   (net (tr @ [Sleep, Get SEARCH_URL params]) = Inr response \<and>
    \<not> (400 \<le> resp_status response \<and> resp_status response < 600) \<and>
    resp_json response = Inr data \<and> json_contains ''esearchresult'' data = Inr False \<longrightarrow>
      fst (search_papers net query max_results filter_companies tr) =
        Inl (PubMedAPIError
          (''Unexpected error during PubMed search: '' @
           ''Invalid response format from PubMed search'')))"
proof -
  let ?sp = "search_papers net query max_results filter_companies tr"
  let ?tr = "tr @ [Sleep, Get SEARCH_URL params]"
  obtain r tr' where body: "search_body net params tr = (r, tr')"
    by (cases "search_body net params tr")
  have a: "is_api_error (fst ?sp)" if "fst (search_body net params tr) = Inl e" "is_exception e"
  proof -
    from that(1) body have "search_body net params tr = (Inl e, tr')"
      by simp
    then show ?thesis
      unfolding params_def using that(2) by (simp add: search_papers_wraps)
  qed
  have b: "fst ?sp = Inl e" if "fst (search_body net params tr) = Inl e" "\<not> is_exception e"
  proof -
    from that(1) body have "search_body net params tr = (Inl e, tr')"
      by simp
    then show ?thesis
      unfolding params_def using that(2) by (simp add: search_papers_passes)
  qed
  have c: "is_api_error (fst ?sp)" if left: "fst ?sp = Inl e" and exc: "is_exception e"
  proof (cases r)
    case (Inl e')
    show ?thesis
    proof (cases "is_exception e'")
      case True
      with Inl body show ?thesis
        unfolding params_def by (simp add: search_papers_wraps)
    next
      case False
      with Inl body have "fst ?sp = Inl e'"
        unfolding params_def by (simp add: search_papers_passes)
      with left have "e = e'"
        by simp
      with exc False show ?thesis
        by simp
    qed
  next
    case (Inr papers)
    with body have "?sp = (Inr papers, tr')"
      unfolding params_def by (simp add: search_papers_returns)
    with left show ?thesis
      by simp
  qed
  have d: "fst ?sp =
        Inl (PubMedAPIError
          (''Unexpected error during PubMed search: '' @
           ''Invalid response format from PubMed search''))"
    if "net ?tr = Inr response"
      "\<not> (400 \<le> resp_status response \<and> resp_status response < 600)"
      "resp_json response = Inr data" "json_contains ''esearchresult'' data = Inr False"
  proof -
    from that(1,2) have "make_request net SEARCH_URL params tr = (Inr response, ?tr)"
      by (rule make_request_success)
    then have "search_body net params tr =
        (Inl (PubMedAPIError ''Invalid response format from PubMed search''), ?tr)"
      using that(3,4) by (rule search_body_missing_field)
    then show ?thesis
      unfolding params_def by (simp add: search_papers_wraps)
  qed
  show ?thesis
    using a b c d by blast
qed

theorem search_papers_exceptions_witness:
  "fst (search_body network_raising (search_params (build_company_filtered_query ''test query'') 200) []) =
     Inl (OtherException ''API Error'') \<and>
   is_exception (OtherException ''API Error'') \<and>
   is_api_error (fst (search_papers network_raising ''test query'' 200 True [])) \<and>
   fst (search_body network_interrupted (search_params (build_company_filtered_query ''test query'') 200) []) =
     Inl (Interrupt ''KeyboardInterrupt'') \<and>
   \<not> is_exception (Interrupt ''KeyboardInterrupt'') \<and>
   fst (search_papers network_interrupted ''test query'' 200 True []) =
     Inl (Interrupt ''KeyboardInterrupt'') \<and>
   fst (search_papers (network_answering example_response_no_field) ''test query'' 200 True []) =
     Inl (PubMedAPIError
       ''Unexpected error during PubMed search: Invalid response format from PubMed search'') \<and>
   is_exception (PubMedAPIError
       ''Unexpected error during PubMed search: Invalid response format from PubMed search'') \<and>
   is_api_error
     (fst (search_papers (network_answering example_response_no_field) ''test query'' 200 True []))"
proof -
  let ?params = "search_params (build_company_filtered_query ''test query'') 200"
  have raised: "fst (search_body network_raising ?params []) = Inl (OtherException ''API Error'')"
    by (simp add: search_body_def make_request_def network_raising_def)
  then have caught: "is_api_error (fst (search_papers network_raising ''test query'' 200 True []))"
    using search_papers_exceptions
      [where net = network_raising and query = "''test query''" and max_results = 200
         and filter_companies = True and tr = "[]" and e = "OtherException ''API Error''"]
    by simp
  have interrupted:
    "fst (search_body network_interrupted ?params []) = Inl (Interrupt ''KeyboardInterrupt'')"
    by (simp add: search_body_def make_request_def network_interrupted_def)
  then have passed: "fst (search_papers network_interrupted ''test query'' 200 True []) =
      Inl (Interrupt ''KeyboardInterrupt'')"
    using search_papers_exceptions
      [where net = network_interrupted and query = "''test query''" and max_results = 200
         and filter_companies = True and tr = "[]" and e = "Interrupt ''KeyboardInterrupt''"]
    by simp
  have own: "fst (search_papers (network_answering example_response_no_field)
                    ''test query'' 200 True []) =
     Inl (PubMedAPIError
       ''Unexpected error during PubMed search: Invalid response format from PubMed search'')"
    using search_papers_exceptions
      [where net = "network_answering example_response_no_field"
         and query = "''test query''" and max_results = 200 and filter_companies = True
         and tr = "[]" and response = example_response_no_field and data = "JObj []"]
    by (simp add: network_answering_def example_response_no_field_def)
  then have "is_api_error
     (fst (search_papers (network_answering example_response_no_field) ''test query'' 200 True []))"
    using search_papers_exceptions
      [where net = "network_answering example_response_no_field"
         and query = "''test query''" and max_results = 200 and filter_companies = True
         and tr = "[]"
         and e = "PubMedAPIError
           ''Unexpected error during PubMed search: Invalid response format from PubMed search''"]
    by simp
  with raised caught interrupted passed own show ?thesis
    by simp
qed

end
